theory Spec2Isabelle
  imports Main "HOL-Library.Sublist"
begin

section \<open>Python strings\<close>

text \<open>
  A Python \<open>str\<close> is modelled by the bytes of its UTF-8 encoding, a HOL \<open>string\<close>.
  The built-ins used by \<open>gemini_client.py\<close> are \<open>str.strip\<close>, \<open>str.lower\<close>,
  \<open>str.startswith\<close>, \<open>str.split(sep, 1)\<close> with a one-character separator,
  \<open>str.join\<close> and the formatting of an \<open>int\<close> inside an f-string.

  \<open>str.strip()\<close> removes, at both ends, every character for which \<open>str.isspace\<close>
  holds. These are the code points 09-0D, 1C-1F, 20, 85, A0, 1680, 2000-200A, 2028, 2029,
  202F, 205F and 3000; \<open>whitespace\<close> lists their UTF-8 encodings.
\<close>

definition whitespace :: "string list" where
  "whitespace =
     [[CHR 0x09], [CHR 0x0A], [CHR 0x0B], [CHR 0x0C], [CHR 0x0D],
      [CHR 0x1C], [CHR 0x1D], [CHR 0x1E], [CHR 0x1F], [CHR 0x20],
      [CHR 0xC2, CHR 0x85], [CHR 0xC2, CHR 0xA0],
      [CHR 0xE1, CHR 0x9A, CHR 0x80],
      [CHR 0xE2, CHR 0x80, CHR 0x80], [CHR 0xE2, CHR 0x80, CHR 0x81],
      [CHR 0xE2, CHR 0x80, CHR 0x82], [CHR 0xE2, CHR 0x80, CHR 0x83],
      [CHR 0xE2, CHR 0x80, CHR 0x84], [CHR 0xE2, CHR 0x80, CHR 0x85],
      [CHR 0xE2, CHR 0x80, CHR 0x86], [CHR 0xE2, CHR 0x80, CHR 0x87],
      [CHR 0xE2, CHR 0x80, CHR 0x88], [CHR 0xE2, CHR 0x80, CHR 0x89],
      [CHR 0xE2, CHR 0x80, CHR 0x8A],
      [CHR 0xE2, CHR 0x80, CHR 0xA8], [CHR 0xE2, CHR 0x80, CHR 0xA9],
      [CHR 0xE2, CHR 0x80, CHR 0xAF], [CHR 0xE2, CHR 0x81, CHR 0x9F],
      [CHR 0xE3, CHR 0x80, CHR 0x80]]"

text \<open>The number of bytes of the whitespace character a string starts with (0 if none).\<close>

definition ws_prefix :: "string \<Rightarrow> nat" where
  "ws_prefix s = (case List.find (\<lambda>w. prefix w s) whitespace of
                    None \<Rightarrow> 0 | Some w \<Rightarrow> length w)"

text \<open>The number of bytes of the whitespace character a string ends with (0 if none).\<close>

definition ws_suffix :: "string \<Rightarrow> nat" where
  "ws_suffix s = (case List.find (\<lambda>w. suffix w s) whitespace of
                    None \<Rightarrow> 0 | Some w \<Rightarrow> length w)"

function py_lstrip :: "string \<Rightarrow> string" where
  "py_lstrip s = (if ws_prefix s = 0 then s else py_lstrip (drop (ws_prefix s) s))"
  by pat_completeness auto
termination
proof (relation "measure length")
  fix s :: string
  assume "ws_prefix s \<noteq> 0"
  moreover have "ws_prefix s \<le> length s"
    by (auto simp: ws_prefix_def find_Some_iff prefix_length_le split: option.splits)
  ultimately show "(drop (ws_prefix s) s, s) \<in> measure length" by simp
qed simp

function py_rstrip :: "string \<Rightarrow> string" where
  "py_rstrip s = (if ws_suffix s = 0 then s else py_rstrip (take (length s - ws_suffix s) s))"
  by pat_completeness auto
termination
proof (relation "measure length")
  fix s :: string
  assume "ws_suffix s \<noteq> 0"
  moreover have "ws_suffix s \<le> length s"
    by (auto simp: ws_suffix_def find_Some_iff suffix_length_le split: option.splits)
  ultimately show "(take (length s - ws_suffix s) s, s) \<in> measure length" by simp
qed simp

declare py_lstrip.simps [simp del] py_rstrip.simps [simp del]

definition py_strip :: "string \<Rightarrow> string" where
  "py_strip s = py_rstrip (py_lstrip s)"

text \<open>
  \<open>str.lower()\<close>: the ASCII letters A-Z go to a-z. Outside ASCII Python lower-cases
  further letters; only U+0130 and U+212A produce an ASCII character (\<open>i\<close> and \<open>k\<close>),
  which occurs in neither trigger prefix, so the two \<open>startswith\<close> tests of
  \<open>generate_response\<close>, the only readers of the lower-cased text, are not affected.
\<close>

definition lower_char :: "char \<Rightarrow> char" where
  "lower_char c =
     (case map_of (zip ''ABCDEFGHIJKLMNOPQRSTUVWXYZ'' ''abcdefghijklmnopqrstuvwxyz'') c of
        None \<Rightarrow> c | Some d \<Rightarrow> d)"

definition py_lower :: "string \<Rightarrow> string" where
  "py_lower s = map lower_char s"

text \<open>\<open>s.startswith(p)\<close>.\<close>

definition startswith :: "string \<Rightarrow> string \<Rightarrow> bool" where
  "startswith s p = prefix p s"

text \<open>Exceptions (subclasses of \<open>Exception\<close>) that the modelled calls can raise.\<close>

datatype exn = IndexError | KeyError string | ExternalError string

text \<open>
  \<open>s.split(sep, 1)\<close> for a one-character separator: the parts before and after the
  first occurrence of \<open>sep\<close>, or the string alone when \<open>sep\<close> does not occur.
\<close>

definition split1 :: "string \<Rightarrow> char \<Rightarrow> string list" where
  "split1 s sep =
     (if sep \<in> set s
      then [takeWhile (\<lambda>c. c \<noteq> sep) s, tl (dropWhile (\<lambda>c. c \<noteq> sep) s)]
      else [s])"

text \<open>\<open>xs[1]\<close> raises \<open>IndexError\<close> on a list shorter than two.\<close>

definition index1 :: "'a list \<Rightarrow> exn + 'a" where
  "index1 xs = (if 1 < length xs then Inr (xs ! 1) else Inl IndexError)"

text \<open>\<open>sep.join(xs)\<close>.\<close>

fun join :: "string \<Rightarrow> string list \<Rightarrow> string" where
  "join sep [] = []"
| "join sep [x] = x"
| "join sep (x # y # ys) = x @ sep @ join sep (y # ys)"

text \<open>The decimal text of a non-negative \<open>int\<close>, as an f-string prints it.\<close>

fun str_of_nat :: "nat \<Rightarrow> string" where
  "str_of_nat n =
     (if n < 10 then [''0123456789'' ! n]
      else str_of_nat (n div 10) @ [''0123456789'' ! (n mod 10)])"

declare str_of_nat.simps [simp del]

section \<open>perform_web_search\<close>

text \<open>
  The search provider (\<open>DDGS().text(query, max_results=max_results)\<close>) is outside the
  repository and is a parameter of the model. A run of it yields a sequence of entries
  and either ends or raises; an exception of \<open>DDGS()\<close> itself is a run that raises
  before the first entry. An entry is a \<open>dict\<close> from keys to values that are a \<open>str\<close>
  or \<open>None\<close>, or it is not a \<open>dict\<close> at all.
\<close>

datatype pyval = PyNone | PyStr string

datatype provider_entry = NotDict | Dict "string \<rightharpoonup> pyval"

datatype ddgs_run = Yields "provider_entry list" | Raises "provider_entry list" exn

type_synonym ddgs = "string \<Rightarrow> int \<Rightarrow> ddgs_run"

text \<open>A result of the search is a \<open>Dict[str, str]\<close>.\<close>

type_synonym result = "string \<rightharpoonup> string"

text \<open>\<open>d.get(k)\<close> is \<open>None\<close> for a missing key.\<close>

definition dict_get :: "(string \<rightharpoonup> pyval) \<Rightarrow> string \<Rightarrow> pyval" where
  "dict_get d k = (case d k of None \<Rightarrow> PyNone | Some v \<Rightarrow> v)"

text \<open>\<open>v or ''\<close>: \<open>None\<close> and the empty string are falsy.\<close>

definition or_empty :: "pyval \<Rightarrow> string" where
  "or_empty v = (case v of PyNone \<Rightarrow> [] | PyStr s \<Rightarrow> (if s = [] then [] else s))"

text \<open>The \<open>dict\<close> literal of lines 28 to 32.\<close>

definition result_dict :: "string \<Rightarrow> string \<Rightarrow> string \<Rightarrow> result" where
  "result_dict title href body = [''title'' \<mapsto> title, ''href'' \<mapsto> href, ''body'' \<mapsto> body]"

text \<open>The body of the \<open>for\<close> loop over the provider's entries, \<open>results\<close> being the list built so far.\<close>

fun search_loop :: "provider_entry list \<Rightarrow> result list \<Rightarrow> result list" where
  "search_loop [] results = results"
| "search_loop (NotDict # rest) results = search_loop rest results"
| "search_loop (Dict d # rest) results =
     (let title = or_empty (dict_get d ''title'');
          href = or_empty (dict_get d ''href'');
          body = or_empty (dict_get d ''body'')
      in if title \<noteq> [] \<and> href \<noteq> []
         then search_loop rest
                (results @ [result_dict title href body])
         else search_loop rest results)"

text \<open>The \<open>try\<close> block: an exception of the provider leaves the block, and the results built so far are lost.\<close>

definition perform_web_search_try :: "ddgs \<Rightarrow> string \<Rightarrow> int \<Rightarrow> exn + result list" where
  "perform_web_search_try ddgs query max_results =
     (case ddgs query max_results of
        Yields entries \<Rightarrow> Inr (search_loop entries [])
      | Raises entries e \<Rightarrow> Inl e)"

text \<open>The whole function: \<open>except Exception\<close> prints a diagnostic (not modelled) and returns \<open>[]\<close>.\<close>

definition perform_web_search :: "ddgs \<Rightarrow> string \<Rightarrow> int \<Rightarrow> exn + result list" where
  "perform_web_search ddgs query max_results =
     (case perform_web_search_try ddgs query max_results of
        Inr results \<Rightarrow> Inr results
      | Inl e \<Rightarrow> Inr [])"

section \<open>GeminiClient\<close>

text \<open>
  The chat session of the remote model is outside the repository. For one call of
  \<open>generate_response\<close> it is a function from the message sent to what
  \<open>self.chat.send_message(message).text\<close> does: raise, or give the reply text.
\<close>

type_synonym chat_session = "string \<Rightarrow> exn + string"

record GeminiClient =
  chat :: "chat_session option"

text \<open>\<open>__init__\<close>: when configuring the API or starting the chat raises, \<open>self.chat\<close> is \<open>None\<close>.\<close>

definition GeminiClient_init :: "exn + chat_session \<Rightarrow> GeminiClient" where
  "GeminiClient_init started =
     (case started of Inr c \<Rightarrow> \<lparr>chat = Some c\<rparr> | Inl e \<Rightarrow> \<lparr>chat = None\<rparr>)"

text \<open>The calls that leave the process, in the order they are made.\<close>

datatype event = Search string int | Send string

text \<open>\<open>user_input or ""\<close>; the argument is \<open>None\<close> or a \<open>str\<close>.\<close>

definition text_of :: "string option \<Rightarrow> string" where
  "text_of user_input = (case user_input of None \<Rightarrow> [] | Some s \<Rightarrow> (if s = [] then [] else s))"

text \<open>Lines 62 to 69: the search trigger. The result is the value of \<open>search_query\<close>.\<close>

definition search_query_of :: "string \<Rightarrow> exn + string option" where
  "search_query_of text =
     (let lower = py_lower (py_strip text)
      in if startswith lower ''search:''
         then (case index1 (split1 text CHR '':'') of
                 Inl e \<Rightarrow> Inl e | Inr r \<Rightarrow> Inr (Some (py_strip r)))
         else if startswith lower ''/search ''
         then (case index1 (split1 text CHR '' '') of
                 Inl e \<Rightarrow> Inl e | Inr r \<Rightarrow> Inr (Some (py_strip r)))
         else Inr None)"

text \<open>\<open>item[k]\<close> raises \<open>KeyError\<close> for a missing key.\<close>

definition getitem :: "result \<Rightarrow> string \<Rightarrow> exn + string" where
  "getitem item k = (case item k of None \<Rightarrow> Inl (KeyError k) | Some v \<Rightarrow> Inr v)"

text \<open>The em dash U+2014 of the format string, in UTF-8.\<close>

definition em_dash :: string where
  "em_dash = [CHR 0xE2, CHR 0x80, CHR 0x94]"

text \<open>Line 79: one reference. The format string has one space before the dash and two after it.\<close>

definition format_ref :: "nat \<Rightarrow> result \<Rightarrow> exn + string" where
  "format_ref idx item =
     (case getitem item ''title'' of Inl e \<Rightarrow> Inl e | Inr title \<Rightarrow>
      case getitem item ''href'' of Inl e \<Rightarrow> Inl e | Inr href \<Rightarrow>
      case getitem item ''body'' of Inl e \<Rightarrow> Inl e | Inr body \<Rightarrow>
        Inr (''['' @ str_of_nat idx @ ''] '' @ title @ '' '' @ em_dash @ ''  '' @ href
             @ ''\<newline>'' @ body))"

text \<open>The loop over \<open>enumerate(web_results, start=1)\<close>, \<open>refs_lines\<close> being the list built so far.\<close>

fun refs_loop :: "nat \<Rightarrow> result list \<Rightarrow> string list \<Rightarrow> exn + string list" where
  "refs_loop idx [] refs_lines = Inr refs_lines"
| "refs_loop idx (item # rest) refs_lines =
     (case format_ref idx item of
        Inl e \<Rightarrow> Inl e
      | Inr line \<Rightarrow> refs_loop (Suc idx) rest (refs_lines @ [line]))"

definition system_prompt :: string where
  "system_prompt =
     ''You are an AI research assistant. Use the provided web search results to answer the user query. ''
     @ ''Synthesize concisely, cite sources inline like [1], [2] where relevant, and include a brief summary.''"

definition composed_of :: "string \<Rightarrow> string \<Rightarrow> string" where
  "composed_of search_query refs_block =
     ''<system>\<newline>'' @ system_prompt @ ''\<newline></system>\<newline>''
     @ ''<user_query>\<newline>'' @ search_query @ ''\<newline></user_query>\<newline>''
     @ ''<web_results>\<newline>'' @ refs_block @ ''\<newline></web_results>''"

definition no_results_message :: string where
  "no_results_message = ''I could not retrieve web results right now. Please try again.''"

definition not_configured_message :: string where
  "not_configured_message = ''AI service is not configured correctly.''"

definition error_message :: string where
  "error_message = ''I'm sorry, I encountered an error processing your request.''"

text \<open>
  The \<open>try\<close> block of \<open>generate_response\<close> (lines 61 to 96) for a client whose session is
  \<open>c\<close>: what it returns or raises, and the calls it has made.
\<close>

definition generate_response_try ::
  "chat_session \<Rightarrow> ddgs \<Rightarrow> string option \<Rightarrow> (exn + string) \<times> event list" where
  "generate_response_try c ddgs user_input =
     (let text = text_of user_input
      in case search_query_of text of
           Inl e \<Rightarrow> (Inl e, [])
         | Inr search_query \<Rightarrow>
             (case search_query of
                None \<Rightarrow> (c text, [Send text])
              | Some q \<Rightarrow>
                  if q = [] then (c text, [Send text])
                  else (case perform_web_search ddgs q 6 of
                          Inl e \<Rightarrow> (Inl e, [Search q 6])
                        | Inr web_results \<Rightarrow>
                            if web_results = [] then (Inr no_results_message, [Search q 6])
                            else (case refs_loop 1 web_results [] of
                                    Inl e \<Rightarrow> (Inl e, [Search q 6])
                                  | Inr refs_lines \<Rightarrow>
                                      (let refs_block = join ''\<newline>\<newline>'' refs_lines;
                                           composed = composed_of q refs_block
                                       in (c composed, [Search q 6, Send composed]))))))"

text \<open>The whole method: the guard on \<open>self.chat\<close>, then the \<open>try\<close> block under \<open>except Exception\<close>.\<close>

definition generate_response ::
  "GeminiClient \<Rightarrow> ddgs \<Rightarrow> string option \<Rightarrow> (exn + string) \<times> event list" where
  "generate_response self ddgs user_input =
     (case chat self of
        None \<Rightarrow> (Inr not_configured_message, [])
      | Some c \<Rightarrow>
          (case generate_response_try c ddgs user_input of
             (Inr reply, events) \<Rightarrow> (Inr reply, events)
           | (Inl e, events) \<Rightarrow> (Inr error_message, events)))"

text \<open>The default argument \<open>max_results = 6\<close> of \<open>perform_web_search\<close>.\<close>

definition perform_web_search_default :: "ddgs \<Rightarrow> string \<Rightarrow> exn + result list" where
  "perform_web_search_default ddgs query = perform_web_search ddgs query 6"

section \<open>The specification's notions\<close>

text \<open>The remainder of a string after the first occurrence of a delimiter.\<close>

definition remainder_after :: "char \<Rightarrow> string \<Rightarrow> string" where
  "remainder_after sep s = tl (dropWhile (\<lambda>c. c \<noteq> sep) s)"

text \<open>
  A trigger prefix is a pattern at the start of the user input, compared without regard
  to case and to leading whitespace.
\<close>

definition has_trigger :: "string \<Rightarrow> string \<Rightarrow> bool" where
  "has_trigger text p = startswith (py_lower (py_lstrip text)) p"

text \<open>The text of a field of a provider entry; empty when the entry has no such text.\<close>

definition field :: "provider_entry \<Rightarrow> string \<Rightarrow> string" where
  "field e k = (case e of NotDict \<Rightarrow> [] | Dict d \<Rightarrow>
                  (case d k of Some (PyStr s) \<Rightarrow> s | _ \<Rightarrow> []))"

text \<open>An entry is kept when it misses neither its title nor its link.\<close>

definition kept :: "provider_entry \<Rightarrow> bool" where
  "kept e = (field e ''title'' \<noteq> [] \<and> field e ''href'' \<noteq> [])"

definition result_of :: "provider_entry \<Rightarrow> result" where
  "result_of e = result_dict (field e ''title'') (field e ''href'') (field e ''body'')"

text \<open>
  One entry of the references block: \<open>[n] <title><separator><link>\<close>, a newline, the
  snippet. The specification writes the separator as a dash between two single spaces;
  the format string of line 79 has two spaces after the dash.
\<close>

definition spec_separator :: string where
  "spec_separator = '' '' @ em_dash @ '' ''"

definition code_separator :: string where
  "code_separator = '' '' @ em_dash @ ''  ''"

definition ref_entry :: "string \<Rightarrow> nat \<Rightarrow> string \<times> string \<times> string \<Rightarrow> string" where
  "ref_entry separator n r =
     (case r of (title, link, snippet) \<Rightarrow>
        ''['' @ str_of_nat n @ ''] '' @ title @ separator @ link @ ''\<newline>'' @ snippet)"

text \<open>The references block: the entries numbered from 1 in input order, joined by blank lines.\<close>

definition references_block :: "string \<Rightarrow> (string \<times> string \<times> string) list \<Rightarrow> string" where
  "references_block separator rs =
     join ''\<newline>\<newline>'' (map (\<lambda>i. ref_entry separator (Suc i) (rs ! i)) [0..<length rs])"

text \<open>The three labelled segments, in order: instruction, query, references.\<close>

definition three_segments :: "string \<Rightarrow> string \<Rightarrow> (string \<times> string \<times> string) list \<Rightarrow> string" where
  "three_segments separator q rs =
     ''<system>\<newline>'' @ system_prompt @ ''\<newline></system>\<newline>''
     @ ''<user_query>\<newline>'' @ q @ ''\<newline></user_query>\<newline>''
     @ ''<web_results>\<newline>'' @ references_block separator rs @ ''\<newline></web_results>''"

definition dict_of_triple :: "string \<times> string \<times> string \<Rightarrow> result" where
  "dict_of_triple r = (case r of (title, link, snippet) \<Rightarrow> result_dict title link snippet)"

text \<open>What the caller of \<open>generate_response\<close> gets when the message \<open>m\<close> is sent to the session \<open>c\<close>.\<close>

definition reply_to :: "chat_session \<Rightarrow> string \<Rightarrow> exn + string" where
  "reply_to c m = (case c m of Inr reply \<Rightarrow> Inr reply | Inl e \<Rightarrow> Inr error_message)"

section \<open>Example collaborators\<close>

definition echo_chat :: chat_session where
  "echo_chat m = Inr (''echo: '' @ m)"

definition failing_chat :: chat_session where
  "failing_chat m = Inl (ExternalError ''transport error'')"

definition good_entry :: "string \<Rightarrow> provider_entry" where
  "good_entry n = Dict [''title'' \<mapsto> PyStr (''Title '' @ n), ''href'' \<mapsto> PyStr (''https://example.org/'' @ n),
                        ''body'' \<mapsto> PyStr (''Snippet '' @ n)]"

definition good_result :: "string \<Rightarrow> result" where
  "good_result n = result_dict (''Title '' @ n) (''https://example.org/'' @ n) (''Snippet '' @ n)"

definition good_triple :: "string \<Rightarrow> string \<times> string \<times> string" where
  "good_triple n = (''Title '' @ n, ''https://example.org/'' @ n, ''Snippet '' @ n)"

definition empty_ddgs :: ddgs where
  "empty_ddgs query max_results = Yields []"

definition raising_ddgs :: ddgs where
  "raising_ddgs query max_results = Raises [good_entry ''1''] (ExternalError ''timeout'')"

text \<open>A provider whose entries are partly unusable: no \<open>dict\<close>, no title, a \<open>None\<close> link, an empty link, no body.\<close>

definition mixed_ddgs :: ddgs where
  "mixed_ddgs query max_results =
     Yields [good_entry ''1'', NotDict,
             Dict [''href'' \<mapsto> PyStr ''https://example.org/x''],
             Dict [''title'' \<mapsto> PyStr ''No link'', ''href'' \<mapsto> PyNone],
             Dict [''title'' \<mapsto> PyStr ''Empty link'', ''href'' \<mapsto> PyStr []],
             Dict [''title'' \<mapsto> PyStr ''T'', ''href'' \<mapsto> PyStr ''L''],
             good_entry ''2'']"

text \<open>A provider that yields seven usable entries whatever the cap is.\<close>

definition seven_ddgs :: ddgs where
  "seven_ddgs query max_results =
     Yields (map good_entry [''1'', ''2'', ''3'', ''4'', ''5'', ''6'', ''7''])"

definition one_ddgs :: ddgs where
  "one_ddgs query max_results = Yields [good_entry ''1'']"

text \<open>A provider with malformed entries: one that is no \<open>dict\<close>, one whose title is \<open>None\<close> and that has no link, then a usable one.\<close>

definition malformed_ddgs :: ddgs where
  "malformed_ddgs query max_results =
     Yields [NotDict, Dict [''title'' \<mapsto> PyNone], good_entry ''1'']"

section \<open>Facts about the string operations\<close>

lemma text_of_Some [simp]: "text_of (Some s) = s"
  by (simp add: text_of_def)

lemma py_lstrip_suffix: "suffix (py_lstrip s) s"
proof (induction s rule: py_lstrip.induct)
  case (1 s)
  show ?case
  proof (cases "ws_prefix s = 0")
    case True
    then show ?thesis by (simp add: py_lstrip.simps)
  next
    case False
    with 1 have "suffix (py_lstrip (drop (ws_prefix s) s)) (drop (ws_prefix s) s)" by simp
    moreover have "suffix (drop (ws_prefix s) s) s" by (rule suffix_drop)
    ultimately have "suffix (py_lstrip (drop (ws_prefix s) s)) s" by (rule suffix_order.trans)
    with False show ?thesis by (simp add: py_lstrip.simps)
  qed
qed

lemma py_rstrip_prefix: "prefix (py_rstrip s) s"
proof (induction s rule: py_rstrip.induct)
  case (1 s)
  show ?case
  proof (cases "ws_suffix s = 0")
    case True
    then show ?thesis by (simp add: py_rstrip.simps)
  next
    case False
    with 1 have "prefix (py_rstrip (take (length s - ws_suffix s) s)) (take (length s - ws_suffix s) s)"
      by simp
    moreover have "prefix (take (length s - ws_suffix s) s) s" by (rule take_is_prefix)
    ultimately have "prefix (py_rstrip (take (length s - ws_suffix s) s)) s"
      by (rule prefix_order.trans)
    with False show ?thesis by (simp add: py_rstrip.simps)
  qed
qed

lemma py_strip_infix: "\<exists>a b. s = a @ py_strip s @ b"
proof -
  obtain a where a: "s = a @ py_lstrip s"
    using py_lstrip_suffix [of s] by (auto simp: suffix_def)
  obtain b where b: "py_lstrip s = py_strip s @ b"
    using py_rstrip_prefix [of "py_lstrip s"] by (auto simp: prefix_def py_strip_def)
  from a b have "s = a @ py_strip s @ b" by simp
  then show ?thesis by blast
qed

lemma set_py_strip: "set (py_strip s) \<subseteq> set s"
proof -
  obtain a b where "s = a @ py_strip s @ b" using py_strip_infix by blast
  then have "set s = set a \<union> set (py_strip s) \<union> set b" by (metis set_append Un_assoc)
  then show ?thesis by blast
qed

lemma lower_char_fixed:
  "c \<in> set '':/ '' \<Longrightarrow> lower_char d = c \<Longrightarrow> d = c"
  by (auto simp: lower_char_def split: if_splits)

lemma py_lower_mem:
  assumes "c \<in> set '':/ ''" "c \<in> set (py_lower s)"
  shows "c \<in> set s"
proof -
  from assms(2) obtain d where d: "d \<in> set s" "lower_char d = c"
    by (auto simp: py_lower_def)
  from assms(1) d(2) have "d = c" by (rule lower_char_fixed)
  with d(1) show ?thesis by simp
qed

lemma lower_strip_lstrip:
  assumes "startswith (py_lower (py_strip s)) p"
  shows "startswith (py_lower (py_lstrip s)) p"
proof -
  have "prefix (py_strip s) (py_lstrip s)"
    unfolding py_strip_def by (rule py_rstrip_prefix)
  then have "prefix (py_lower (py_strip s)) (py_lower (py_lstrip s))"
    unfolding py_lower_def by (rule map_mono_prefix)
  with assms show ?thesis
    unfolding startswith_def by (rule prefix_order.trans)
qed

section \<open>Facts about the two loops\<close>

lemma or_empty_dict_get: "or_empty (dict_get d k) = field (Dict d) k"
  by (simp add: or_empty_def dict_get_def field_def split: option.splits pyval.splits)

lemma search_loop_eq: "search_loop es acc = acc @ map result_of (filter kept es)"
proof (induction es arbitrary: acc)
  case Nil
  show ?case by simp
next
  case (Cons e es)
  show ?case
  proof (cases e)
    case NotDict
    then show ?thesis using Cons.IH [of acc] by (simp add: kept_def field_def)
  next
    case (Dict d)
    show ?thesis
    proof (cases "kept e")
      case True
      then show ?thesis
        using Cons.IH [of "acc @ [result_of e]"] Dict
        by (simp add: or_empty_dict_get kept_def result_of_def)
    next
      case False
      then show ?thesis
        using Cons.IH [of acc] Dict
        by (auto simp add: or_empty_dict_get kept_def)
    qed
  qed
qed

lemma perform_web_search_Yields:
  "ddgs q n = Yields es \<Longrightarrow> perform_web_search ddgs q n = Inr (map result_of (filter kept es))"
  by (simp add: perform_web_search_def perform_web_search_try_def search_loop_eq)

lemma perform_web_search_Raises:
  "ddgs q n = Raises es e \<Longrightarrow> perform_web_search ddgs q n = Inr []"
  by (simp add: perform_web_search_def perform_web_search_try_def)

lemma perform_web_search_shape:
  "\<exists>es. perform_web_search ddgs q n = Inr (map result_of (filter kept es))"
proof (cases "ddgs q n")
  case (Yields es)
  then show ?thesis using perform_web_search_Yields by blast
next
  case (Raises es e)
  then have "perform_web_search ddgs q n = Inr (map result_of (filter kept []))"
    by (simp add: perform_web_search_Raises)
  then show ?thesis by blast
qed

lemma format_ref_dict:
  "format_ref idx (dict_of_triple r) = Inr (ref_entry code_separator idx r)"
  by (cases r) (simp add: format_ref_def getitem_def dict_of_triple_def result_dict_def
      ref_entry_def code_separator_def)

lemma refs_loop_eq:
  "refs_loop idx (map dict_of_triple rs) acc =
     Inr (acc @ map (\<lambda>i. ref_entry code_separator (idx + i) (rs ! i)) [0..<length rs])"
proof (induction rs arbitrary: idx acc)
  case Nil
  show ?case by simp
next
  case (Cons r rs)
  have "[0..<length (r # rs)] = 0 # map Suc [0..<length rs]"
    by (simp add: upt_conv_Cons map_Suc_upt del: upt_Suc)
  then show ?case
    using Cons.IH [of "Suc idx" "acc @ [ref_entry code_separator idx r]"]
    by (simp add: format_ref_dict comp_def del: upt_Suc)
qed

lemma result_of_triple:
  "result_of e = dict_of_triple (field e ''title'', field e ''href'', field e ''body'')"
  by (simp add: result_of_def dict_of_triple_def)

section \<open>Facts about the trigger and the branches\<close>

lemma startswith_mem: "startswith s p \<Longrightarrow> c \<in> set p \<Longrightarrow> c \<in> set s"
  using set_mono_prefix by (auto simp: startswith_def)

lemma trigger_delimiter_in_text:
  assumes "startswith (py_lower (py_strip text)) p" "c \<in> set '':/ ''" "c \<in> set p"
  shows "c \<in> set text"
proof -
  from assms(1,3) have "c \<in> set (py_lower (py_strip text))" by (rule startswith_mem)
  with assms(2) have "c \<in> set (py_strip text)" by (rule py_lower_mem)
  then show ?thesis using set_py_strip by blast
qed

lemma index1_split1:
  "sep \<in> set s \<Longrightarrow> index1 (split1 s sep) = Inr (remainder_after sep s)"
  by (simp add: index1_def split1_def remainder_after_def)

lemma triggers_exclusive:
  "startswith s ''/search '' \<Longrightarrow> \<not> startswith s ''search:''"
  by (auto simp: startswith_def prefix_def)

lemma search_query_colon:
  assumes "startswith (py_lower (py_strip text)) ''search:''"
  shows "search_query_of text = Inr (Some (py_strip (remainder_after CHR '':'' text)))"
proof -
  have "CHR '':'' \<in> set text"
    using assms by (rule trigger_delimiter_in_text) simp_all
  then show ?thesis
    using assms by (simp add: search_query_of_def index1_split1)
qed

lemma search_query_slash:
  assumes "startswith (py_lower (py_strip text)) ''/search ''"
  shows "search_query_of text = Inr (Some (py_strip (remainder_after CHR '' '' text)))"
proof -
  have "CHR '' '' \<in> set text"
    using assms by (rule trigger_delimiter_in_text) simp_all
  moreover have "\<not> startswith (py_lower (py_strip text)) ''search:''"
    using assms by (rule triggers_exclusive)
  ultimately show ?thesis
    using assms by (simp add: search_query_of_def index1_split1)
qed

lemma search_query_none:
  assumes "\<not> startswith (py_lower (py_strip text)) ''search:''"
    and "\<not> startswith (py_lower (py_strip text)) ''/search ''"
  shows "search_query_of text = Inr None"
  using assms by (simp add: search_query_of_def)

lemma search_query_total: "\<exists>sq. search_query_of text = Inr sq"
  using search_query_colon search_query_slash search_query_none by blast

lemma remainder_after_suffix: "\<exists>a. s = a @ remainder_after sep s"
proof (cases "dropWhile (\<lambda>c. c \<noteq> sep) s")
  case Nil
  have "remainder_after sep s = []" unfolding remainder_after_def Nil by simp
  then have "s = s @ remainder_after sep s" by simp
  then show ?thesis by blast
next
  case (Cons x xs)
  have "s = takeWhile (\<lambda>c. c \<noteq> sep) s @ dropWhile (\<lambda>c. c \<noteq> sep) s" by simp
  with Cons have "s = (takeWhile (\<lambda>c. c \<noteq> sep) s @ [x]) @ remainder_after sep s"
    by (simp add: remainder_after_def)
  then show ?thesis by blast
qed

lemma strip_remainder_infix: "\<exists>a b. s = a @ py_strip (remainder_after sep s) @ b"
proof -
  obtain a where a: "s = a @ remainder_after sep s" using remainder_after_suffix by blast
  obtain a' b where b: "remainder_after sep s = a' @ py_strip (remainder_after sep s) @ b"
    using py_strip_infix by blast
  have "s = (a @ a') @ py_strip (remainder_after sep s) @ b"
    using a b by (metis append.assoc)
  then show ?thesis by blast
qed

lemma search_query_infix:
  assumes "search_query_of text = Inr (Some q)"
  shows "\<exists>a b. text = a @ q @ b"
proof (cases "startswith (py_lower (py_strip text)) ''search:''")
  case True
  then have "q = py_strip (remainder_after CHR '':'' text)"
    using assms search_query_colon by simp
  then show ?thesis using strip_remainder_infix by simp
next
  case False
  show ?thesis
  proof (cases "startswith (py_lower (py_strip text)) ''/search ''")
    case True
    then have "q = py_strip (remainder_after CHR '' '' text)"
      using assms search_query_slash by simp
    then show ?thesis using strip_remainder_infix by simp
  next
    case no: False
    with False assms show ?thesis by (simp add: search_query_none)
  qed
qed

lemma generate_response_plain:
  assumes "chat self = Some c"
    and "search_query_of (text_of user_input) = Inr None
         \<or> search_query_of (text_of user_input) = Inr (Some [])"
  shows "generate_response self ddgs user_input
         = (reply_to c (text_of user_input), [Send (text_of user_input)])"
  using assms
  by (auto simp: generate_response_def generate_response_try_def reply_to_def
      split: sum.splits)

lemma generate_response_search:
  assumes "chat self = Some c"
    and "search_query_of (text_of user_input) = Inr (Some q)" and "q \<noteq> []"
    and "perform_web_search ddgs q 6 = Inr web_results"
  shows "generate_response self ddgs user_input =
           (if web_results = [] then (Inr no_results_message, [Search q 6])
            else case refs_loop 1 web_results [] of
                   Inl e \<Rightarrow> (Inr error_message, [Search q 6])
                 | Inr refs_lines \<Rightarrow>
                     (reply_to c (composed_of q (join ''\<newline>\<newline>'' refs_lines)),
                      [Search q 6, Send (composed_of q (join ''\<newline>\<newline>'' refs_lines))]))"
  using assms
  by (auto simp: generate_response_def generate_response_try_def reply_to_def Let_def
      split: sum.splits)

section \<open>Facts about the example collaborators\<close>

lemma chat_init: "chat (GeminiClient_init (Inr c)) = Some c"
  by (simp add: GeminiClient_init_def)

lemma query_cats: "search_query_of (text_of (Some ''search: cats'')) = Inr (Some ''cats'')"
  by code_simp

lemma field_good_entry:
  "field (good_entry n) ''title'' = ''Title '' @ n"
  "field (good_entry n) ''href'' = ''https://example.org/'' @ n"
  "field (good_entry n) ''body'' = ''Snippet '' @ n"
  by (simp_all add: field_def good_entry_def)

lemma kept_good_entry: "kept (good_entry n)"
  by (simp add: kept_def field_good_entry)

lemma result_of_good_entry: "result_of (good_entry n) = good_result n"
  by (simp add: result_of_def field_good_entry good_result_def)

lemma good_result_triple: "good_result n = dict_of_triple (good_triple n)"
  by (simp add: good_result_def dict_of_triple_def good_triple_def)

lemma getitem_result_dict:
  "getitem (result_dict title href body) ''title'' = Inr title"
  "getitem (result_dict title href body) ''href'' = Inr href"
  "getitem (result_dict title href body) ''body'' = Inr body"
  by (simp_all add: getitem_def result_dict_def)

lemma search_one_ddgs:
  "perform_web_search one_ddgs ''cats'' 6 = Inr (map dict_of_triple [good_triple ''1''])"
  using perform_web_search_Yields [of one_ddgs "''cats''" 6] one_ddgs_def [of "''cats''" 6]
  by (simp add: kept_good_entry result_of_good_entry good_result_triple)

lemma search_mixed_ddgs:
  "perform_web_search mixed_ddgs ''cats'' 6
     = Inr (map dict_of_triple [good_triple ''1'', (''T'', ''L'', []), good_triple ''2''])"
proof -
  have b: "\<not> kept NotDict" "\<not> kept (Dict [''href'' \<mapsto> PyStr ''https://example.org/x''])"
    "\<not> kept (Dict [''title'' \<mapsto> PyStr ''No link'', ''href'' \<mapsto> PyNone])"
    "\<not> kept (Dict [''title'' \<mapsto> PyStr ''Empty link'', ''href'' \<mapsto> PyStr []])"
    "kept (Dict [''title'' \<mapsto> PyStr ''T'', ''href'' \<mapsto> PyStr ''L''])"
    by (simp_all add: kept_def field_def)
  have c: "result_of (Dict [''title'' \<mapsto> PyStr ''T'', ''href'' \<mapsto> PyStr ''L''])
           = dict_of_triple (''T'', ''L'', [])"
    by (simp add: result_of_def field_def dict_of_triple_def)
  show ?thesis
    using perform_web_search_Yields [of mixed_ddgs "''cats''" 6] mixed_ddgs_def [of "''cats''" 6]
    by (simp add: b c kept_good_entry result_of_good_entry good_result_triple)
qed

lemma search_malformed_ddgs:
  "perform_web_search malformed_ddgs ''cats'' 6 = Inr [good_result ''1'']"
proof -
  have b: "\<not> kept NotDict" "\<not> kept (Dict [''title'' \<mapsto> PyNone])"
    by (simp_all add: kept_def field_def)
  show ?thesis
    using perform_web_search_Yields [of malformed_ddgs "''cats''" 6]
      malformed_ddgs_def [of "''cats''" 6]
    by (simp add: b kept_good_entry result_of_good_entry)
qed

section \<open>The composed message and the trigger prefixes\<close>

lemma composed_of_refs:
  "composed_of q (join ''\<newline>\<newline>''
      (map (\<lambda>i. ref_entry code_separator (Suc i) (rs ! i)) [0..<length rs]))
   = three_segments code_separator q rs"
  by (simp add: composed_of_def three_segments_def references_block_def)

lemma generate_response_composed:
  assumes "chat self = Some c"
    and "search_query_of (text_of user_input) = Inr (Some q)" and "q \<noteq> []"
    and "perform_web_search ddgs q 6 = Inr (map dict_of_triple rs)" and "rs \<noteq> []"
  shows "generate_response self ddgs user_input
         = (reply_to c (three_segments code_separator q rs),
            [Search q 6, Send (three_segments code_separator q rs)])"
proof -
  have "refs_loop 1 (map dict_of_triple rs) []
        = Inr (map (\<lambda>i. ref_entry code_separator (Suc i) (rs ! i)) [0..<length rs])"
    by (simp add: refs_loop_eq)
  then show ?thesis
    using generate_response_search [OF assms(1,2,3,4)] assms(5)
    by (simp add: composed_of_refs del: upt_Suc)
qed

lemma has_trigger_of_match:
  "startswith (py_lower (py_strip s)) p \<Longrightarrow> has_trigger s p"
  unfolding has_trigger_def by (rule lower_strip_lstrip)

lemma has_trigger_exclusive:
  "has_trigger s ''search:'' \<Longrightarrow> has_trigger s ''/search '' \<Longrightarrow> False"
  unfolding has_trigger_def using triggers_exclusive by blast

section \<open>The claims\<close>

text \<open>
  Claim C1. When the session is established, the trigger is detected and the extracted
  query is not empty, and the search returns no result, \<open>generate_response\<close> returns
  exactly the message "I could not retrieve web results right now. Please try again." and
  the only call made is the search: no message is sent to the session.
\<close>

theorem empty_search_skips_model:
  assumes "chat self = Some c"
    and "search_query_of (text_of user_input) = Inr (Some q)" and "q \<noteq> []"
    and "perform_web_search ddgs q 6 = Inr []"
  shows "generate_response self ddgs user_input = (Inr no_results_message, [Search q 6])
         \<and> (\<forall>m. Send m \<notin> set (snd (generate_response self ddgs user_input)))"
  using generate_response_search [OF assms] by simp

theorem empty_search_skips_model_witness:
  "generate_response (GeminiClient_init (Inr echo_chat)) empty_ddgs (Some ''search: cats'')
     = (Inr no_results_message, [Search ''cats'' 6])"
proof -
  have "perform_web_search empty_ddgs ''cats'' 6 = Inr []"
    by (simp add: perform_web_search_Yields empty_ddgs_def)
  then show ?thesis
    using empty_search_skips_model [OF chat_init query_cats, of empty_ddgs] by simp
qed

text \<open>
  Claim C2. The triggers are tested on the trimmed, lower-cased input. If that starts
  with \<open>search:\<close>, the query is the remainder of the original input after its first colon,
  trimmed; if it starts with \<open>/search \<close>, the query is the remainder of the original input
  after its first space, trimmed. The split never fails, and every extracted query is a
  contiguous piece of the original input, so its casing is the original one.
\<close>

theorem trigger_query_extraction:
  "(startswith (py_lower (py_strip text)) ''search:'' \<longrightarrow>
      search_query_of text = Inr (Some (py_strip (remainder_after CHR '':'' text))))
   \<and> (startswith (py_lower (py_strip text)) ''/search '' \<longrightarrow>
      search_query_of text = Inr (Some (py_strip (remainder_after CHR '' '' text))))
   \<and> (\<forall>q. search_query_of text = Inr (Some q) \<longrightarrow> (\<exists>a b. text = a @ q @ b))"
  using search_query_colon search_query_slash search_query_infix by blast

theorem trigger_query_extraction_witness:
  "startswith (py_lower (py_strip ''  SeArch:  Cats and Dogs  '')) ''search:''
   \<and> search_query_of ''  SeArch:  Cats and Dogs  '' = Inr (Some ''Cats and Dogs'')
   \<and> startswith (py_lower (py_strip ''/SEARCH   Dogs'')) ''/search ''
   \<and> search_query_of ''/SEARCH   Dogs'' = Inr (Some ''Dogs'')"
proof -
  have a: "startswith (py_lower (py_strip ''  SeArch:  Cats and Dogs  '')) ''search:''"
    by code_simp
  have b: "startswith (py_lower (py_strip ''/SEARCH   Dogs'')) ''/search ''"
    by code_simp
  have c: "py_strip (remainder_after CHR '':'' ''  SeArch:  Cats and Dogs  '') = ''Cats and Dogs''"
    by code_simp
  have d: "py_strip (remainder_after CHR '' '' ''/SEARCH   Dogs'') = ''Dogs''"
    by code_simp
  show ?thesis
    using a b c d trigger_query_extraction [of "''  SeArch:  Cats and Dogs  ''"]
      trigger_query_extraction [of "''/SEARCH   Dogs''"]
    by simp
qed

text \<open>
  Claim C3. \<open>generate_response\<close> always returns a string: whatever the \<open>try\<close> block
  raises while composing or sending is caught, and the caller gets the fixed message
  "I'm sorry, I encountered an error processing your request.".
\<close>

theorem no_exception_escapes:
  "(\<exists>reply. fst (generate_response self ddgs user_input) = Inr reply)
   \<and> (\<forall>c e. chat self = Some c \<longrightarrow> fst (generate_response_try c ddgs user_input) = Inl e \<longrightarrow>
          fst (generate_response self ddgs user_input) = Inr error_message)"
  by (auto simp: generate_response_def split: option.splits prod.splits sum.splits)

theorem no_exception_escapes_witness:
  "fst (generate_response_try failing_chat empty_ddgs (Some ''hello'')) = Inl (ExternalError ''transport error'')
   \<and> fst (generate_response (GeminiClient_init (Inr failing_chat)) empty_ddgs (Some ''hello''))
       = Inr error_message"
proof -
  have "search_query_of (text_of (Some ''hello'')) = Inr None" by code_simp
  then have a: "fst (generate_response_try failing_chat empty_ddgs (Some ''hello''))
      = Inl (ExternalError ''transport error'')"
    by (simp add: generate_response_try_def failing_chat_def)
  show ?thesis
    using a chat_init [of failing_chat]
      no_exception_escapes [of "GeminiClient_init (Inr failing_chat)" empty_ddgs "Some ''hello''"]
    by simp
qed

text \<open>
  Claim C4. When the construction of the client failed, \<open>self.chat\<close> is \<open>None\<close> and
  every call returns "AI service is not configured correctly." without any search and
  without any message sent.
\<close>

theorem not_configured_no_io:
  "generate_response (GeminiClient_init (Inl e)) ddgs user_input
     = (Inr not_configured_message, [])"
  by (simp add: generate_response_def GeminiClient_init_def)

text \<open>
  Claim C5. For an input that matches neither trigger prefix, the one call made is the
  sending of the raw input, unmodified, to the session; the search is not invoked.
\<close>

theorem plain_input_sent_unmodified:
  assumes "chat self = Some c"
    and "\<not> startswith (py_lower (py_strip s)) ''search:''"
    and "\<not> startswith (py_lower (py_strip s)) ''/search ''"
  shows "generate_response self ddgs (Some s) = (reply_to c s, [Send s])"
proof -
  have "search_query_of (text_of (Some s)) = Inr None"
    using assms(2,3) by (simp add: search_query_none)
  then show ?thesis
    using generate_response_plain [OF assms(1), of "Some s" ddgs] by simp
qed

theorem plain_input_sent_unmodified_witness:
  "generate_response (GeminiClient_init (Inr echo_chat)) mixed_ddgs (Some '' Plan my Search: week '')
     = (Inr ''echo:  Plan my Search: week '', [Send '' Plan my Search: week ''])"
proof -
  have a: "\<not> startswith (py_lower (py_strip '' Plan my Search: week '')) ''search:''"
    by code_simp
  have b: "\<not> startswith (py_lower (py_strip '' Plan my Search: week '')) ''/search ''"
    by code_simp
  show ?thesis
    using plain_input_sent_unmodified [OF chat_init a b, of echo_chat mixed_ddgs]
    by (simp add: reply_to_def echo_chat_def)
qed

text \<open>
  Claim C6, as the code has it. When the provider yields its entries without raising,
  \<open>perform_web_search\<close> returns the entries that miss neither title nor link, in the
  provider's order, each with its three fields. It has no cap of its own: \<open>max_results\<close>
  is only handed to the provider, so the result has at most as many entries as the
  provider yielded, hence at most \<open>max_results\<close> when the provider yielded no more.
\<close>

theorem search_filters_in_order:
  assumes "ddgs query max_results = Yields entries"
  shows "\<exists>results. perform_web_search ddgs query max_results = Inr results
           \<and> results = map result_of (filter kept entries)
           \<and> length results \<le> length entries
           \<and> (int (length entries) \<le> max_results \<longrightarrow> int (length results) \<le> max_results)"
proof -
  from assms have "perform_web_search ddgs query max_results
      = Inr (map result_of (filter kept entries))"
    by (rule perform_web_search_Yields)
  moreover have "length (filter kept entries) \<le> length entries" by simp
  moreover have "int (length (filter kept entries)) \<le> max_results"
    if "int (length entries) \<le> max_results"
  proof -
    have "int (length (filter kept entries)) \<le> int (length entries)" by simp
    with that show ?thesis by linarith
  qed
  ultimately show ?thesis by simp
qed

theorem search_filters_in_order_witness:
  "mixed_ddgs ''cats'' 6 = Yields [good_entry ''1'', NotDict,
             Dict [''href'' \<mapsto> PyStr ''https://example.org/x''],
             Dict [''title'' \<mapsto> PyStr ''No link'', ''href'' \<mapsto> PyNone],
             Dict [''title'' \<mapsto> PyStr ''Empty link'', ''href'' \<mapsto> PyStr []],
             Dict [''title'' \<mapsto> PyStr ''T'', ''href'' \<mapsto> PyStr ''L''],
             good_entry ''2'']
   \<and> perform_web_search mixed_ddgs ''cats'' 6
       = Inr [good_result ''1'', result_dict ''T'' ''L'' [], good_result ''2'']"
proof -
  have a: "mixed_ddgs ''cats'' 6 = Yields [good_entry ''1'', NotDict,
             Dict [''href'' \<mapsto> PyStr ''https://example.org/x''],
             Dict [''title'' \<mapsto> PyStr ''No link'', ''href'' \<mapsto> PyNone],
             Dict [''title'' \<mapsto> PyStr ''Empty link'', ''href'' \<mapsto> PyStr []],
             Dict [''title'' \<mapsto> PyStr ''T'', ''href'' \<mapsto> PyStr ''L''],
             good_entry ''2'']"
    by (simp add: mixed_ddgs_def)
  have b: "\<not> kept NotDict" "\<not> kept (Dict [''href'' \<mapsto> PyStr ''https://example.org/x''])"
    "\<not> kept (Dict [''title'' \<mapsto> PyStr ''No link'', ''href'' \<mapsto> PyNone])"
    "\<not> kept (Dict [''title'' \<mapsto> PyStr ''Empty link'', ''href'' \<mapsto> PyStr []])"
    "kept (Dict [''title'' \<mapsto> PyStr ''T'', ''href'' \<mapsto> PyStr ''L''])"
    by (simp_all add: kept_def field_def)
  have c: "result_of (Dict [''title'' \<mapsto> PyStr ''T'', ''href'' \<mapsto> PyStr ''L'']) = result_dict ''T'' ''L'' []"
    by (simp add: result_of_def field_def)
  show ?thesis
    using search_filters_in_order [of mixed_ddgs "''cats''" 6, where entries =
        "[good_entry ''1'', NotDict,
             Dict [''href'' \<mapsto> PyStr ''https://example.org/x''],
             Dict [''title'' \<mapsto> PyStr ''No link'', ''href'' \<mapsto> PyNone],
             Dict [''title'' \<mapsto> PyStr ''Empty link'', ''href'' \<mapsto> PyStr []],
             Dict [''title'' \<mapsto> PyStr ''T'', ''href'' \<mapsto> PyStr ''L''],
             good_entry ''2'']"] a
    by (simp add: b c kept_good_entry result_of_good_entry)
qed

text \<open>
  Against claim C6 as stated: a provider that yields seven usable entries under the
  default cap of 6 gets all seven returned.
\<close>

theorem search_has_no_cap_of_its_own:
  "perform_web_search_default seven_ddgs ''cats''
     = Inr (map good_result [''1'', ''2'', ''3'', ''4'', ''5'', ''6'', ''7''])
   \<and> \<not> int (length (map good_result [''1'', ''2'', ''3'', ''4'', ''5'', ''6'', ''7''])) \<le> 6"
proof -
  have "seven_ddgs ''cats'' 6 = Yields (map good_entry [''1'', ''2'', ''3'', ''4'', ''5'', ''6'', ''7''])"
    by (simp add: seven_ddgs_def)
  then show ?thesis
    unfolding perform_web_search_default_def
    by (simp add: perform_web_search_Yields kept_good_entry result_of_good_entry)
qed

text \<open>
  Claim C7, as the code has it. With \<open>n \<ge> 1\<close> search results the message sent is made
  of the three labelled segments in the order instruction, query, references; the
  references are the \<open>n\<close> entries numbered from 1 in input order, joined by blank lines,
  each \<open>[n] <title> \<close>, the dash, two spaces, \<open><link>\<close>, a newline and the snippet.
\<close>

theorem composed_message_layout:
  assumes "chat self = Some c"
    and "search_query_of (text_of user_input) = Inr (Some q)" and "q \<noteq> []"
    and "perform_web_search ddgs q 6 = Inr (map dict_of_triple rs)" and "rs \<noteq> []"
  shows "generate_response self ddgs user_input
         = (reply_to c (three_segments code_separator q rs),
            [Search q 6, Send (three_segments code_separator q rs)])"
  using assms by (rule generate_response_composed)

theorem composed_message_layout_witness:
  "snd (generate_response (GeminiClient_init (Inr echo_chat)) mixed_ddgs (Some ''search: cats''))
     = [Search ''cats'' 6,
        Send (''<system>\<newline>'' @ system_prompt @ ''\<newline></system>\<newline>''
              @ ''<user_query>\<newline>cats\<newline></user_query>\<newline>''
              @ ''<web_results>\<newline>''
              @ ''[1] Title 1 '' @ em_dash @ ''  https://example.org/1\<newline>Snippet 1''
              @ ''\<newline>\<newline>''
              @ ''[2] T '' @ em_dash @ ''  L\<newline>''
              @ ''\<newline>\<newline>''
              @ ''[3] Title 2 '' @ em_dash @ ''  https://example.org/2\<newline>Snippet 2''
              @ ''\<newline></web_results>'')]"
proof -
  have n: "str_of_nat (Suc 0) = ''1''" "str_of_nat (Suc (Suc 0)) = ''2''"
    "str_of_nat (Suc (Suc (Suc 0))) = ''3''"
    by (simp_all add: str_of_nat.simps)
  have "three_segments code_separator ''cats'' [good_triple ''1'', (''T'', ''L'', []), good_triple ''2'']
      = ''<system>\<newline>'' @ system_prompt @ ''\<newline></system>\<newline>''
              @ ''<user_query>\<newline>cats\<newline></user_query>\<newline>''
              @ ''<web_results>\<newline>''
              @ ''[1] Title 1 '' @ em_dash @ ''  https://example.org/1\<newline>Snippet 1''
              @ ''\<newline>\<newline>''
              @ ''[2] T '' @ em_dash @ ''  L\<newline>''
              @ ''\<newline>\<newline>''
              @ ''[3] Title 2 '' @ em_dash @ ''  https://example.org/2\<newline>Snippet 2''
              @ ''\<newline></web_results>''"
    by (simp add: three_segments_def references_block_def ref_entry_def code_separator_def
        good_triple_def n upt_rec [of 0] upt_rec [of 1] upt_rec [of 2] upt_rec [of 3])
  then show ?thesis
    using composed_message_layout [OF chat_init query_cats _ search_mixed_ddgs, of echo_chat]
    by simp
qed

text \<open>
  Against claim C7 as stated: the message sent is not the one whose entries have a
  single space after the dash.
\<close>

theorem spec_separator_not_sent:
  "snd (generate_response (GeminiClient_init (Inr echo_chat)) one_ddgs (Some ''search: cats''))
     \<noteq> [Search ''cats'' 6, Send (three_segments spec_separator ''cats'' [good_triple ''1''])]"
proof -
  have "three_segments code_separator ''cats'' [good_triple ''1'']
        \<noteq> three_segments spec_separator ''cats'' [good_triple ''1'']"
    by (simp add: three_segments_def references_block_def ref_entry_def code_separator_def
        spec_separator_def good_triple_def)
  then show ?thesis
    using generate_response_composed [OF chat_init query_cats _ search_one_ddgs, of echo_chat]
    by simp
qed

text \<open>
  Claim C8, as the code has it. \<open>perform_web_search\<close> never raises: it always returns
  a list. When the provider raises, at any point of its run, the list is empty. A
  malformed entry (no \<open>dict\<close>, or a title or link that is missing, \<open>None\<close> or empty)
  raises nothing: it is skipped, and the other entries of the run are returned.
\<close>

theorem search_never_raises:
  "(\<exists>results. perform_web_search ddgs query max_results = Inr results)
   \<and> (\<forall>entries e. ddgs query max_results = Raises entries e \<longrightarrow>
          perform_web_search ddgs query max_results = Inr [])
   \<and> (\<forall>entries. ddgs query max_results = Yields entries \<longrightarrow>
          perform_web_search ddgs query max_results
            = Inr (map result_of (filter kept entries)))"
  using perform_web_search_shape [of ddgs query max_results] perform_web_search_Raises
    perform_web_search_Yields
  by blast

theorem search_never_raises_witness:
  "raising_ddgs ''cats'' 6 = Raises [good_entry ''1''] (ExternalError ''timeout'')
   \<and> perform_web_search raising_ddgs ''cats'' 6 = Inr []
   \<and> malformed_ddgs ''cats'' 6 = Yields [NotDict, Dict [''title'' \<mapsto> PyNone], good_entry ''1'']
   \<and> perform_web_search malformed_ddgs ''cats'' 6
       = Inr (map result_of (filter kept [NotDict, Dict [''title'' \<mapsto> PyNone], good_entry ''1'']))
   \<and> map result_of (filter kept [NotDict, Dict [''title'' \<mapsto> PyNone], good_entry ''1''])
       = [good_result ''1'']"
proof -
  have a: "raising_ddgs ''cats'' 6 = Raises [good_entry ''1''] (ExternalError ''timeout'')"
    by (simp add: raising_ddgs_def)
  have b: "malformed_ddgs ''cats'' 6 = Yields [NotDict, Dict [''title'' \<mapsto> PyNone], good_entry ''1'']"
    by (simp add: malformed_ddgs_def)
  have c: "\<not> kept NotDict" "\<not> kept (Dict [''title'' \<mapsto> PyNone])"
    by (simp_all add: kept_def field_def)
  have d: "map result_of (filter kept [NotDict, Dict [''title'' \<mapsto> PyNone], good_entry ''1''])
       = [good_result ''1'']"
    by (simp add: c kept_good_entry result_of_good_entry)
  have e: "perform_web_search raising_ddgs ''cats'' 6 = Inr []"
    using a search_never_raises [of raising_ddgs "''cats''" 6] by simp
  have f: "perform_web_search malformed_ddgs ''cats'' 6
       = Inr (map result_of (filter kept [NotDict, Dict [''title'' \<mapsto> PyNone], good_entry ''1'']))"
    using b search_never_raises [of malformed_ddgs "''cats''" 6] by blast
  show ?thesis using a b d e f by blast
qed

text \<open>
  Against claim C8 as stated: a run with malformed entries is not answered by the empty
  list; the usable entry of the run is returned.
\<close>

theorem malformed_entry_not_empty:
  "perform_web_search malformed_ddgs ''cats'' 6 = Inr [good_result ''1'']
   \<and> perform_web_search malformed_ddgs ''cats'' 6 \<noteq> Inr []"
  by (simp add: search_malformed_ddgs)

text \<open>
  Claim C9. For an input that starts with a trigger prefix and whose remainder after the
  delimiter is empty or only whitespace, the plain branch is taken: the raw input is
  sent unmodified, the search is not invoked, and what is returned is the outcome of
  that sending.
\<close>

theorem empty_remainder_plain_branch:
  assumes "chat self = Some c"
    and "(has_trigger s ''search:'' \<and> py_strip (remainder_after CHR '':'' s) = [])
         \<or> (has_trigger s ''/search '' \<and> py_strip (remainder_after CHR '' '' s) = [])"
  shows "generate_response self ddgs (Some s) = (reply_to c s, [Send s])"
proof -
  have "search_query_of s = Inr None \<or> search_query_of s = Inr (Some [])"
  proof (cases "startswith (py_lower (py_strip s)) ''search:''")
    case True
    then have "has_trigger s ''search:''" by (rule has_trigger_of_match)
    with assms(2) have "py_strip (remainder_after CHR '':'' s) = []"
      using has_trigger_exclusive by blast
    with True show ?thesis by (simp add: search_query_colon)
  next
    case False
    show ?thesis
    proof (cases "startswith (py_lower (py_strip s)) ''/search ''")
      case True
      then have "has_trigger s ''/search ''" by (rule has_trigger_of_match)
      with assms(2) have "py_strip (remainder_after CHR '' '' s) = []"
        using has_trigger_exclusive by blast
      with True show ?thesis by (simp add: search_query_slash)
    next
      case no: False
      with False show ?thesis by (simp add: search_query_none)
    qed
  qed
  then show ?thesis
    using generate_response_plain [OF assms(1), of "Some s" ddgs] by simp
qed

theorem empty_remainder_plain_branch_witness:
  "has_trigger ''search:'' ''search:'' \<and> py_strip (remainder_after CHR '':'' ''search:'') = []
   \<and> generate_response (GeminiClient_init (Inr echo_chat)) mixed_ddgs (Some ''search:'')
       = (Inr ''echo: search:'', [Send ''search:''])
   \<and> has_trigger ''/search   '' ''/search '' \<and> py_strip (remainder_after CHR '' '' ''/search   '') = []
   \<and> generate_response (GeminiClient_init (Inr echo_chat)) mixed_ddgs (Some ''/search   '')
       = (Inr ''echo: /search   '', [Send ''/search   ''])"
proof -
  have a: "has_trigger ''search:'' ''search:'' \<and> py_strip (remainder_after CHR '':'' ''search:'') = []"
    by code_simp
  have b: "has_trigger ''/search   '' ''/search '' \<and> py_strip (remainder_after CHR '' '' ''/search   '') = []"
    by code_simp
  show ?thesis
    using a b
      empty_remainder_plain_branch [OF chat_init, of "''search:''" echo_chat mixed_ddgs]
      empty_remainder_plain_branch [OF chat_init, of "''/search   ''" echo_chat mixed_ddgs]
    by (simp add: reply_to_def echo_chat_def)
qed

text \<open>
  Claim C10. Every result of \<open>perform_web_search\<close> is a \<open>dict\<close> with the three keys
  \<open>title\<close>, \<open>href\<close> and \<open>body\<close>, the first two with a non-empty text; so the three
  accesses of line 79 succeed and the loop over the results raises no \<open>KeyError\<close>.
\<close>

theorem results_have_all_fields:
  assumes "perform_web_search ddgs query max_results = Inr results"
  shows "(\<forall>r \<in> set results. \<exists>title href body.
            r = result_dict title href body \<and> title \<noteq> [] \<and> href \<noteq> []
            \<and> getitem r ''title'' = Inr title \<and> getitem r ''href'' = Inr href
            \<and> getitem r ''body'' = Inr body)
         \<and> (\<forall>idx refs_lines. \<exists>refs_lines'. refs_loop idx results refs_lines = Inr refs_lines')"
proof -
  obtain es where es: "results = map result_of (filter kept es)"
    using perform_web_search_shape [of ddgs query max_results] assms by auto
  have "\<exists>title href body.
            r = result_dict title href body \<and> title \<noteq> [] \<and> href \<noteq> []
            \<and> getitem r ''title'' = Inr title \<and> getitem r ''href'' = Inr href
            \<and> getitem r ''body'' = Inr body" if "r \<in> set results" for r
  proof -
    from that es obtain e where e: "kept e" "r = result_of e" by auto
    then show ?thesis
      by (simp add: result_of_def kept_def getitem_result_dict)
  qed
  moreover have "\<exists>refs_lines'. refs_loop idx results refs_lines = Inr refs_lines'"
    for idx refs_lines
  proof -
    have "results = map dict_of_triple
            (map (\<lambda>e. (field e ''title'', field e ''href'', field e ''body'')) (filter kept es))"
      using es by (simp add: result_of_triple)
    then obtain rs where "results = map dict_of_triple rs" by blast
    then show ?thesis by (simp add: refs_loop_eq)
  qed
  ultimately show ?thesis by blast
qed

theorem results_have_all_fields_witness:
  "perform_web_search mixed_ddgs ''cats'' 6
       = Inr [good_result ''1'', result_dict ''T'' ''L'' [], good_result ''2'']
   \<and> (\<exists>refs_lines. refs_loop 1 [good_result ''1'', result_dict ''T'' ''L'' [], good_result ''2''] []
          = Inr refs_lines)
   \<and> (\<exists>title href body. result_dict ''T'' ''L'' [] = result_dict title href body
          \<and> title \<noteq> [] \<and> href \<noteq> []
          \<and> getitem (result_dict ''T'' ''L'' []) ''body'' = Inr body)"
proof -
  have b: "\<not> kept NotDict" "\<not> kept (Dict [''href'' \<mapsto> PyStr ''https://example.org/x''])"
    "\<not> kept (Dict [''title'' \<mapsto> PyStr ''No link'', ''href'' \<mapsto> PyNone])"
    "\<not> kept (Dict [''title'' \<mapsto> PyStr ''Empty link'', ''href'' \<mapsto> PyStr []])"
    "kept (Dict [''title'' \<mapsto> PyStr ''T'', ''href'' \<mapsto> PyStr ''L''])"
    by (simp_all add: kept_def field_def)
  have c: "result_of (Dict [''title'' \<mapsto> PyStr ''T'', ''href'' \<mapsto> PyStr ''L'']) = result_dict ''T'' ''L'' []"
    by (simp add: result_of_def field_def)
  have a: "perform_web_search mixed_ddgs ''cats'' 6
       = Inr [good_result ''1'', result_dict ''T'' ''L'' [], good_result ''2'']"
    using perform_web_search_Yields [of mixed_ddgs "''cats''" 6] mixed_ddgs_def [of "''cats''" 6]
    by (simp add: b c kept_good_entry result_of_good_entry)
  show ?thesis
    using a results_have_all_fields [of mixed_ddgs "''cats''" 6
        "[good_result ''1'', result_dict ''T'' ''L'' [], good_result ''2'']"] by auto
qed

end
